theory Spec2Isabelle
  imports Main "HOL-Library.AList"
begin

section \<open>Exceptions and effects\<close>

text \<open>
  The exceptions the two Redis services raise. The two classes of
  \<^verbatim>\<open>src/exceptions/redis_exceptions.py\<close> are HTTP exceptions carrying a status code
  and a detail message; the asynchronous service raises the builtin \<^verbatim>\<open>Exception\<close> with
  a message. \<open>AttributeError\<close> is what Python raises for a method call on \<^verbatim>\<open>None\<close>,
  \<open>TypeError\<close> for a call of a value that is not callable, and \<open>LibraryError\<close> stands for any exception that comes out of the redis library or
  out of a decorated operation; the services never catch one.
\<close>

datatype error =
    RedisNotInitializedException nat string
  | RedisAlreadyInitializedException nat string
  | Exception string
  | AttributeError string
  | TypeError string
  | LibraryError string

definition new_RedisNotInitializedException :: "string \<Rightarrow> error" where
  "new_RedisNotInitializedException error_message =
     RedisNotInitializedException 404
       (if error_message = '''' then ''RedisService not initialized. Call `initialize()` first''
        else error_message)"

definition new_RedisAlreadyInitializedException :: "string \<Rightarrow> error" where
  "new_RedisAlreadyInitializedException error_message =
     RedisAlreadyInitializedException 404
       (if error_message = '''' then ''RedisService is already initialized.''
        else error_message)"

text \<open>
  A call that talks to the store runs against the state \<open>'w\<close> of everything outside the
  service (the server, the network) and either raises or returns a value.
  \<open>await\<close> sequences two such calls: an exception of the first ends the computation.
\<close>

type_synonym ('r, 'w) io = "'w \<Rightarrow> (error + 'r) \<times> 'w"

definition ret :: "'r \<Rightarrow> ('r, 'w) io" where
  "ret r w = (Inr r, w)"

definition raise :: "error \<Rightarrow> ('r, 'w) io" where
  "raise e w = (Inl e, w)"

definition await :: "('r, 'w) io \<Rightarrow> ('r \<Rightarrow> ('s, 'w) io) \<Rightarrow> ('s, 'w) io" where
  "await m f w = (case m w of (Inl e, w') \<Rightarrow> (Inl e, w') | (Inr r, w') \<Rightarrow> f r w')"

section \<open>The synchronous service\<close>

text \<open>
  The client object \<^verbatim>\<open>redis.Redis\<close> of the library, as the record of the methods
  that \<^verbatim>\<open>RedisService\<close> calls. What they do is the library's and the server's affair,
  so the service is modelled for every such client.
\<close>

record 'w Redis =
  redis_set :: "string \<Rightarrow> string \<Rightarrow> int option \<Rightarrow> (bool, 'w) io"
  redis_get :: "string \<Rightarrow> (string option, 'w) io"
  redis_close :: "(unit, 'w) io"

text \<open>The keyword arguments \<^verbatim>\<open>__init__\<close> passes to the constructor \<^verbatim>\<open>redis.Redis\<close>.\<close>

record redis_kwargs =
  kw_host :: string
  kw_port :: int
  kw_username :: "string option"
  kw_password :: "string option"
  kw_db :: int
  kw_decode_responses :: bool

text \<open>An instance of \<^verbatim>\<open>RedisService\<close> has no attributes of its own.\<close>

datatype RedisService = RedisService_object

text \<open>
  The class attributes \<^verbatim>\<open>_instance\<close> and \<^verbatim>\<open>_client\<close>, both \<^verbatim>\<open>None\<close> when the module
  is loaded. The lock \<^verbatim>\<open>_lock\<close> has no effect on a single thread and is left out.
\<close>

record 'w RedisService_class =
  cls_instance :: "RedisService option"
  cls_client :: "'w Redis option"

definition RedisService_loaded :: "'w RedisService_class" where
  "RedisService_loaded = \<lparr>cls_instance = None, cls_client = None\<rparr>"

text \<open>
  \<^verbatim>\<open>RedisService(host, port, username, password, db)\<close>: the constructor. The first
  argument is the library's \<^verbatim>\<open>redis.Redis\<close>, which may raise.
\<close>

definition RedisService_init ::
  "(redis_kwargs \<Rightarrow> error + 'w Redis) \<Rightarrow> string \<Rightarrow> int \<Rightarrow> string option \<Rightarrow> string option \<Rightarrow> int
     \<Rightarrow> 'w RedisService_class \<Rightarrow> (error + RedisService) \<times> 'w RedisService_class" where
  "RedisService_init redis_Redis host port username password db cls =
     (if cls_client cls \<noteq> None then (Inl (new_RedisAlreadyInitializedException ''''), cls)
      else
        (case redis_Redis \<lparr>kw_host = host, kw_port = port, kw_username = username,
                           kw_password = password, kw_db = db, kw_decode_responses = True\<rparr> of
           Inl e \<Rightarrow> (Inl e, cls)
         | Inr c \<Rightarrow> (Inr RedisService_object, cls\<lparr>cls_client := Some c\<rparr>)))"

definition initialize ::
  "(redis_kwargs \<Rightarrow> error + 'w Redis) \<Rightarrow> string \<Rightarrow> int \<Rightarrow> string option \<Rightarrow> string option \<Rightarrow> int
     \<Rightarrow> 'w RedisService_class \<Rightarrow> (error + RedisService) \<times> 'w RedisService_class" where
  "initialize redis_Redis host port username password db cls =
     (case cls_instance cls of
        None \<Rightarrow>
          (case RedisService_init redis_Redis host port username password db cls of
             (Inl e, cls') \<Rightarrow> (Inl e, cls')
           | (Inr obj, cls') \<Rightarrow> (Inr obj, cls'\<lparr>cls_instance := Some obj\<rparr>))
      | Some obj \<Rightarrow> (Inr obj, cls))"

definition get_instance :: "'w RedisService_class \<Rightarrow> error + RedisService" where
  "get_instance cls =
     (case cls_instance cls of
        None \<Rightarrow> Inl (new_RedisNotInitializedException '''')
      | Some obj \<Rightarrow> Inr obj)"

text \<open>
  \<^verbatim>\<open>set\<close>, \<^verbatim>\<open>get\<close> and \<^verbatim>\<open>close\<close> read the class attribute \<^verbatim>\<open>_client\<close>; a call of
  \<^verbatim>\<open>set\<close> or \<^verbatim>\<open>get\<close> while it is \<^verbatim>\<open>None\<close> is an attribute lookup on \<^verbatim>\<open>None\<close>.
  \<^verbatim>\<open>set\<close> drops what the client returns.
\<close>

definition RedisService_set ::
  "'w RedisService_class \<Rightarrow> RedisService \<Rightarrow> string \<Rightarrow> string \<Rightarrow> int option \<Rightarrow> (unit, 'w) io" where
  "RedisService_set cls self key val ex =
     (case cls_client cls of
        None \<Rightarrow> raise (AttributeError ''set'')
      | Some c \<Rightarrow> await (redis_set c key val ex) (\<lambda>_. ret ()))"

definition RedisService_get ::
  "'w RedisService_class \<Rightarrow> RedisService \<Rightarrow> string \<Rightarrow> (string option, 'w) io" where
  "RedisService_get cls self key =
     (case cls_client cls of
        None \<Rightarrow> raise (AttributeError ''get'')
      | Some c \<Rightarrow> redis_get c key)"

text \<open>\<^verbatim>\<open>close\<close> assigns to no attribute: the class state after it is the one before.\<close>

definition RedisService_close ::
  "RedisService \<Rightarrow> 'w RedisService_class \<Rightarrow> 'w \<Rightarrow> (error + unit) \<times> 'w RedisService_class \<times> 'w" where
  "RedisService_close self cls w =
     (case cls_client cls of
        None \<Rightarrow> (Inr (), cls, w)
      | Some c \<Rightarrow> (case redis_close c w of (r, w') \<Rightarrow> (r, cls, w')))"

section \<open>The asynchronous service\<close>

text \<open>
  The first argument of \<^verbatim>\<open>set_decorator\<close>, and so of the \<^verbatim>\<open>set\<close> its wrapper calls, is a
  string or a callable (\<^verbatim>\<open>Union[str, Callable]\<close>). A callable here is an asynchronous
  operation: it takes its arguments \<open>'a\<close> and, awaited, returns an \<open>'r\<close> or raises.
\<close>

type_synonym ('a, 'r, 'w) afunc = "'a \<Rightarrow> ('r, 'w) io"

datatype ('a, 'r, 'w) key = Str string | Callable "('a, 'r, 'w) afunc"

primrec callable :: "('a, 'r, 'w) key \<Rightarrow> bool" where
  "callable (Str s) = False"
| "callable (Callable f) = True"

text \<open>
  A key used where the wrapper expects \<^verbatim>\<open>func\<close>: a callable is the operation itself,
  and a call of a string raises.
\<close>

primrec as_func :: "('a, 'r, 'w) key \<Rightarrow> ('a, 'r, 'w) afunc" where
  "as_func (Callable f) = f"
| "as_func (Str s) = (\<lambda>args. raise (TypeError ''str object is not callable''))"

text \<open>\<^verbatim>\<open>client.pipeline()\<close>: a batch-command builder with nothing queued.\<close>

datatype pipeline = Pipeline

text \<open>
  The client object \<^verbatim>\<open>redis.asyncio.Redis\<close> as the record of the methods the service
  calls, and the pool object with the one method called on it. The responses are those
  of a client made with \<^verbatim>\<open>decode_responses=True\<close>: text, or \<^verbatim>\<open>None\<close> for a key that
  is absent. The values stored are of the type \<open>'r\<close> that decorated operations return.
\<close>

record ('a, 'r, 'w) AsyncRedis =
  r_get :: "string \<Rightarrow> (string option, 'w) io"
  r_set :: "('a, 'r, 'w) key \<Rightarrow> 'r \<Rightarrow> int option \<Rightarrow> (bool, 'w) io"
  r_mget :: "string list \<Rightarrow> (string option list, 'w) io"
  r_mset :: "(string \<times> 'r) list \<Rightarrow> (bool, 'w) io"
  r_keys :: "string \<Rightarrow> (string list, 'w) io"
  r_delete :: "string \<Rightarrow> (int, 'w) io"
  r_exists :: "string \<Rightarrow> (int, 'w) io"
  r_flushdb :: "(bool, 'w) io"
  r_pipeline :: pipeline
  r_aclose :: "(unit, 'w) io"

record 'w ConnectionPool =
  pool_aclose :: "(unit, 'w) io"

record pool_kwargs =
  pk_host :: string
  pk_port :: int
  pk_db :: int
  pk_password :: "string option"
  pk_max_connections :: int
  pk_decode_responses :: bool
  pk_kwargs :: "(string \<times> string) list"

text \<open>The two constructors of the module \<^verbatim>\<open>redis.asyncio\<close>; either may raise.\<close>

record ('a, 'r, 'w) redis_asyncio =
  asyncio_ConnectionPool :: "pool_kwargs \<Rightarrow> error + 'w ConnectionPool"
  asyncio_Redis :: "'w ConnectionPool \<Rightarrow> error + ('a, 'r, 'w) AsyncRedis"

text \<open>
  The instance attributes \<^verbatim>\<open>_pool\<close> and \<^verbatim>\<open>_client\<close>, as \<^verbatim>\<open>__init__\<close> sets them. The
  reentrant lock \<^verbatim>\<open>_lock\<close> has no effect on a single task and is left out.
\<close>

record ('a, 'r, 'w) AsyncRedisService =
  self_pool :: "'w ConnectionPool option"
  self_client :: "('a, 'r, 'w) AsyncRedis option"

definition AsyncRedisService_init :: "('a, 'r, 'w) AsyncRedisService" where
  "AsyncRedisService_init = \<lparr>self_pool = None, self_client = None\<rparr>"

text \<open>
  \<^verbatim>\<open>set_connection_pool\<close> assigns \<^verbatim>\<open>_pool\<close> before it constructs the client, so a
  constructor of the client that raises leaves the new pool behind.
\<close>

definition set_connection_pool ::
  "('a, 'r, 'w) redis_asyncio \<Rightarrow> string \<Rightarrow> int \<Rightarrow> int \<Rightarrow> string option \<Rightarrow> int \<Rightarrow> (string \<times> string) list
     \<Rightarrow> ('a, 'r, 'w) AsyncRedisService \<Rightarrow> (error + unit) \<times> ('a, 'r, 'w) AsyncRedisService" where
  "set_connection_pool redis host port db password max_connections kwargs self =
     (case asyncio_ConnectionPool redis
             \<lparr>pk_host = host, pk_port = port, pk_db = db, pk_password = password,
              pk_max_connections = max_connections, pk_decode_responses = True,
              pk_kwargs = kwargs\<rparr> of
        Inl e \<Rightarrow> (Inl e, self)
      | Inr p \<Rightarrow>
          (case asyncio_Redis redis p of
             Inl e \<Rightarrow> (Inl e, self\<lparr>self_pool := Some p\<rparr>)
           | Inr c \<Rightarrow> (Inr (), self\<lparr>self_pool := Some p, self_client := Some c\<rparr>)))"

abbreviation pool_not_set :: error where
  "pool_not_set \<equiv> Exception ''Connection pool not set. Call set_connection_pool() first.''"

definition get_connection :: "('a, 'r, 'w) AsyncRedisService \<Rightarrow> error + ('a, 'r, 'w) AsyncRedis" where
  "get_connection self =
     (case self_client self of
        None \<Rightarrow> Inl (Exception ''Connection pool not set. Call set_connection_pool() first.'')
      | Some c \<Rightarrow> Inr c)"

text \<open>
  \<^verbatim>\<open>aclose\<close> closes the client, then the pool, then clears both attributes; an
  exception of either close leaves the attributes as they were.
\<close>

definition aclose ::
  "('a, 'r, 'w) AsyncRedisService \<Rightarrow> 'w \<Rightarrow> (error + unit) \<times> ('a, 'r, 'w) AsyncRedisService \<times> 'w" where
  "aclose self w =
     (case (case self_client self of Some c \<Rightarrow> r_aclose c w | None \<Rightarrow> (Inr (), w)) of
        (Inl e, w1) \<Rightarrow> (Inl e, self, w1)
      | (Inr _, w1) \<Rightarrow>
          (case (case self_pool self of Some p \<Rightarrow> pool_aclose p w1 | None \<Rightarrow> (Inr (), w1)) of
             (Inl e, w2) \<Rightarrow> (Inl e, self, w2)
           | (Inr _, w2) \<Rightarrow> (Inr (), self\<lparr>self_client := None, self_pool := None\<rparr>, w2)))"

definition aenter ::
  "('a, 'r, 'w) AsyncRedisService \<Rightarrow> ('a, 'r, 'w) AsyncRedisService" where
  "aenter self = self"

definition aexit ::
  "('a, 'r, 'w) AsyncRedisService \<Rightarrow> 'w \<Rightarrow> (error + unit) \<times> ('a, 'r, 'w) AsyncRedisService \<times> 'w" where
  "aexit self w = aclose self w"

definition AsyncRedisService_get ::
  "('a, 'r, 'w) AsyncRedisService \<Rightarrow> string \<Rightarrow> (string option, 'w) io" where
  "AsyncRedisService_get self key =
     (case get_connection self of Inl e \<Rightarrow> raise e | Inr client \<Rightarrow> r_get client key)"

definition AsyncRedisService_set ::
  "('a, 'r, 'w) AsyncRedisService \<Rightarrow> ('a, 'r, 'w) key \<Rightarrow> 'r \<Rightarrow> int option \<Rightarrow> (bool, 'w) io" where
  "AsyncRedisService_set self key val expire =
     (case get_connection self of Inl e \<Rightarrow> raise e | Inr client \<Rightarrow> r_set client key val expire)"

definition mget ::
  "('a, 'r, 'w) AsyncRedisService \<Rightarrow> string list \<Rightarrow> (string option list, 'w) io" where
  "mget self keys =
     (case get_connection self of Inl e \<Rightarrow> raise e | Inr client \<Rightarrow> r_mget client keys)"

definition mset ::
  "('a, 'r, 'w) AsyncRedisService \<Rightarrow> (string \<times> 'r) list \<Rightarrow> (bool, 'w) io" where
  "mset self mapping =
     (case get_connection self of Inl e \<Rightarrow> raise e | Inr client \<Rightarrow> r_mset client mapping)"

text \<open>
  A dict built from a sequence of pairs: of two pairs with one key the later one is the
  entry, so a lookup finds the last pair of the key.
\<close>

definition dict :: "('k \<times> 'v) list \<Rightarrow> ('k \<rightharpoonup> 'v)" where
  "dict kvs = map_of (rev kvs)"

definition get_by_pattern ::
  "('a, 'r, 'w) AsyncRedisService \<Rightarrow> string \<Rightarrow> (string \<rightharpoonup> string option, 'w) io" where
  "get_by_pattern self pattern =
     (case get_connection self of
        Inl e \<Rightarrow> raise e
      | Inr client \<Rightarrow>
          await (r_keys client pattern) (\<lambda>keys.
            if keys = [] then ret Map.empty
            else await (r_mget client keys) (\<lambda>values. ret (dict (zip keys values)))))"

definition delete :: "('a, 'r, 'w) AsyncRedisService \<Rightarrow> string \<Rightarrow> (int, 'w) io" where
  "delete self key =
     (case get_connection self of Inl e \<Rightarrow> raise e | Inr client \<Rightarrow> r_delete client key)"

definition exists :: "('a, 'r, 'w) AsyncRedisService \<Rightarrow> string \<Rightarrow> (bool, 'w) io" where
  "exists self key =
     (case get_connection self of
        Inl e \<Rightarrow> raise e
      | Inr client \<Rightarrow> await (r_exists client key) (\<lambda>n. ret (n = 1)))"

text \<open>
  \<^verbatim>\<open>set_decorator\<close> returns the inner \<^verbatim>\<open>decorator\<close> when its first argument is not
  callable, and \<^verbatim>\<open>decorator(key)\<close>, which is a \<^verbatim>\<open>wrapper\<close>, when it is. The wrapper
  closes over \<^verbatim>\<open>self\<close>, \<^verbatim>\<open>key\<close>, \<^verbatim>\<open>expire\<close> and \<^verbatim>\<open>func\<close>.
\<close>

definition wrapper ::
  "('a, 'r, 'w) AsyncRedisService \<Rightarrow> ('a, 'r, 'w) key \<Rightarrow> int option \<Rightarrow> ('a, 'r, 'w) afunc
     \<Rightarrow> ('a, 'r, 'w) afunc" where
  "wrapper self key expire func args =
     await (func args) (\<lambda>result.
       await (AsyncRedisService_set self key result expire) (\<lambda>_. ret result))"

definition decorator ::
  "('a, 'r, 'w) AsyncRedisService \<Rightarrow> ('a, 'r, 'w) key \<Rightarrow> int option \<Rightarrow> ('a, 'r, 'w) afunc
     \<Rightarrow> ('a, 'r, 'w) afunc" where
  "decorator self key expire func = wrapper self key expire func"

datatype ('a, 'r, 'w) decorated =
    Decorator "('a, 'r, 'w) afunc \<Rightarrow> ('a, 'r, 'w) afunc"
  | Wrapper "('a, 'r, 'w) afunc"

definition set_decorator ::
  "('a, 'r, 'w) AsyncRedisService \<Rightarrow> ('a, 'r, 'w) key \<Rightarrow> int option \<Rightarrow> ('a, 'r, 'w) decorated" where
  "set_decorator self key expire =
     (if callable key = False then Decorator (decorator self key expire)
      else Wrapper (decorator self key expire (as_func key)))"

definition keys :: "('a, 'r, 'w) AsyncRedisService \<Rightarrow> string \<Rightarrow> (string list, 'w) io" where
  "keys self pattern =
     (case get_connection self of Inl e \<Rightarrow> raise e | Inr client \<Rightarrow> r_keys client pattern)"

definition flushdb :: "('a, 'r, 'w) AsyncRedisService \<Rightarrow> (unit, 'w) io" where
  "flushdb self =
     (case get_connection self of
        Inl e \<Rightarrow> raise e
      | Inr client \<Rightarrow> await (r_flushdb client) (\<lambda>_. ret ()))"

definition pipeline :: "('a, 'r, 'w) AsyncRedisService \<Rightarrow> (pipeline, 'w) io" where
  "pipeline self =
     (case get_connection self of Inl e \<Rightarrow> raise e | Inr client \<Rightarrow> ret (r_pipeline client))"

section \<open>A store in memory\<close>

text \<open>
  One client of each kind, for running the services on concrete inputs: a store that is
  an association list in the server's key order, together with the commands it was
  sent. A pattern is matched with \<open>*\<close> for any run of characters and \<open>?\<close> for any
  one, and a key that is not text is refused, as the library's encoder does.
\<close>

datatype command =
    GET string
  | SET string string "int option"
  | MGET "string list"
  | MSET "(string \<times> string) list"
  | KEYS string
  | DEL string
  | EXISTS string
  | FLUSHDB
  | CLOSE

record store =
  st_data :: "(string \<times> string) list"
  st_sent :: "command list"

definition empty_store :: store where
  "empty_store = \<lparr>st_data = [], st_sent = []\<rparr>"

definition send :: "command \<Rightarrow> store \<Rightarrow> store" where
  "send cmd s = s\<lparr>st_sent := st_sent s @ [cmd]\<rparr>"

fun glob :: "string \<Rightarrow> string \<Rightarrow> bool" where
  "glob [] [] = True"
| "glob [] (c # cs) = False"
| "glob (p # ps) [] = (p = CHR ''*'' \<and> glob ps [])"
| "glob (p # ps) (c # cs) =
     (if p = CHR ''*'' then glob ps (c # cs) \<or> glob (p # ps) cs
      else (p = CHR ''?'' \<or> p = c) \<and> glob ps cs)"

definition store_set :: "string \<Rightarrow> string \<Rightarrow> int option \<Rightarrow> (bool, store) io" where
  "store_set k v ex s = (Inr True, send (SET k v ex) (s\<lparr>st_data := AList.update k v (st_data s)\<rparr>))"

definition store_get :: "string \<Rightarrow> (string option, store) io" where
  "store_get k s = (Inr (map_of (st_data s) k), send (GET k) s)"

definition store_mget :: "string list \<Rightarrow> (string option list, store) io" where
  "store_mget ks s = (Inr (map (map_of (st_data s)) ks), send (MGET ks) s)"

definition store_mset :: "(string \<times> string) list \<Rightarrow> (bool, store) io" where
  "store_mset kvs s = (Inr True, send (MSET kvs) (s\<lparr>st_data := AList.updates (map fst kvs) (map snd kvs) (st_data s)\<rparr>))"

definition store_keys :: "string \<Rightarrow> (string list, store) io" where
  "store_keys pattern s = (Inr (filter (glob pattern) (map fst (st_data s))), send (KEYS pattern) s)"

definition store_delete :: "string \<Rightarrow> (int, store) io" where
  "store_delete k s =
     (Inr (if map_of (st_data s) k = None then 0 else 1),
      send (DEL k) (s\<lparr>st_data := AList.delete k (st_data s)\<rparr>))"

definition store_exists :: "string \<Rightarrow> (int, store) io" where
  "store_exists k s = (Inr (if map_of (st_data s) k = None then 0 else 1), send (EXISTS k) s)"

definition store_flushdb :: "(bool, store) io" where
  "store_flushdb s = (Inr True, send FLUSHDB (s\<lparr>st_data := []\<rparr>))"

definition store_close :: "(unit, store) io" where
  "store_close s = (Inr (), send CLOSE s)"

definition store_Redis :: "store Redis" where
  "store_Redis = \<lparr>redis_set = store_set, redis_get = store_get, redis_close = store_close\<rparr>"

definition store_AsyncRedis :: "('a, string, store) AsyncRedis" where
  "store_AsyncRedis =
     \<lparr>r_get = store_get,
      r_set = (\<lambda>key v ex.
        case key of Str k \<Rightarrow> store_set k v ex | Callable f \<Rightarrow> raise (LibraryError ''DataError'')),
      r_mget = store_mget,
      r_mset = store_mset,
      r_keys = store_keys,
      r_delete = store_delete,
      r_exists = store_exists,
      r_flushdb = store_flushdb,
      r_pipeline = Pipeline,
      r_aclose = store_close\<rparr>"

definition store_ConnectionPool :: "store ConnectionPool" where
  "store_ConnectionPool = \<lparr>pool_aclose = ret ()\<rparr>"

definition store_redis :: "redis_kwargs \<Rightarrow> error + store Redis" where
  "store_redis kwargs = Inr store_Redis"

definition store_asyncio :: "('a, string, store) redis_asyncio" where
  "store_asyncio =
     \<lparr>asyncio_ConnectionPool = (\<lambda>kwargs. Inr store_ConnectionPool),
      asyncio_Redis = (\<lambda>p. Inr store_AsyncRedis)\<rparr>"

text \<open>The two services once configured over the store in memory.\<close>

definition store_class :: "store RedisService_class" where
  "store_class = \<lparr>cls_instance = Some RedisService_object, cls_client = Some store_Redis\<rparr>"

definition store_service :: "('a, string, store) AsyncRedisService" where
  "store_service = \<lparr>self_pool = Some store_ConnectionPool, self_client = Some store_AsyncRedis\<rparr>"

text \<open>
  An operation to decorate: it returns \<open>r1\<close> while the store has been sent no command,
  and \<open>r2\<close> afterwards.
\<close>

definition operation :: "(unit, string, store) afunc" where
  "operation args s = (Inr (if st_sent s = [] then ''r1'' else ''r2''), s)"

section \<open>Sequencing and the connection check\<close>

lemma await_Inr: "m w = (Inr r, w1) \<Longrightarrow> await m f w = f r w1"
  by (simp add: await_def)

lemma await_Inl: "m w = (Inl e, w1) \<Longrightarrow> await m f w = (Inl e, w1)"
  by (simp add: await_def)

lemma get_connection_Some: "self_client self = Some c \<Longrightarrow> get_connection self = Inr c"
  by (simp add: get_connection_def)

lemma get_connection_None:
  "self_client self = None \<Longrightarrow>
     get_connection self = Inl pool_not_set"
  by (simp add: get_connection_def)

section \<open>Initialising the synchronous service twice\<close>

text \<open>
  Claim C1 as stated fails. On the freshly loaded class, over the store in memory, the
  first \<open>initialize\<close> succeeds and leaves a client behind; the second call, in that
  state, returns the instance instead of raising \<open>RedisAlreadyInitializedException\<close>.
\<close>

theorem initialize_twice_counterexample:
  "(case initialize store_redis ''localhost'' 6379 (Some ''default'') (Some ''redispw'') 0
           RedisService_loaded of
      (first, cls) \<Rightarrow>
        first = Inr RedisService_object \<and> cls_client cls = Some store_Redis \<and>
        initialize store_redis ''localhost'' 6379 (Some ''default'') (Some ''redispw'') 0 cls
          = (Inr RedisService_object, cls))"
  by (simp add: initialize_def RedisService_init_def RedisService_loaded_def store_redis_def)

text \<open>
  Claim C1, amended. Once a call of \<open>initialize\<close> has returned an instance, every later
  call, whatever its arguments, returns that instance and leaves the class attributes as
  they are: \<open>initialize\<close> constructs only while \<^verbatim>\<open>_instance\<close> is \<^verbatim>\<open>None\<close>. It is the
  constructor that raises \<open>RedisAlreadyInitializedException\<close>, when a client exists.
\<close>

theorem initialize_again_returns_instance:
  assumes "initialize redis_Redis host port username password db cls = (Inr obj, cls1)"
  shows "initialize redis_Redis' host' port' username' password' db' cls1 = (Inr obj, cls1) \<and>
         (cls_client cls1 \<noteq> None \<longrightarrow>
            RedisService_init redis_Redis' host' port' username' password' db' cls1
              = (Inl (RedisAlreadyInitializedException 404 ''RedisService is already initialized.''), cls1))"
proof -
  have "cls_instance cls1 = Some obj"
    using assms
    by (auto simp: initialize_def split: option.splits prod.splits sum.splits)
  then show ?thesis
    by (simp add: initialize_def RedisService_init_def new_RedisAlreadyInitializedException_def)
qed

theorem initialize_again_returns_instance_witness:
  "initialize store_redis ''localhost'' 6379 (Some ''default'') (Some ''redispw'') 0
     RedisService_loaded = (Inr RedisService_object, store_class) \<and>
   initialize store_redis ''example.org'' 6380 None None 1 store_class
     = (Inr RedisService_object, store_class) \<and>
   RedisService_init store_redis ''example.org'' 6380 None None 1 store_class
     = (Inl (RedisAlreadyInitializedException 404 ''RedisService is already initialized.''), store_class)"
proof -
  have first: "initialize store_redis ''localhost'' 6379 (Some ''default'') (Some ''redispw'') 0
      RedisService_loaded = (Inr RedisService_object, store_class)"
    by (simp add: initialize_def RedisService_init_def RedisService_loaded_def store_redis_def
        store_class_def)
  have "cls_client store_class \<noteq> None"
    by (simp add: store_class_def)
  with first initialize_again_returns_instance [OF first, of store_redis "''example.org''" 6380 None None 1]
  show ?thesis by simp
qed

section \<open>Use before initialisation\<close>

text \<open>
  Claim C2 as stated fails for the asynchronous service. \<open>get_connection\<close> on an
  instance with no client raises the builtin \<^verbatim>\<open>Exception\<close> with a message; it is not
  the exception class \<open>RedisNotInitializedException\<close> that the synchronous service
  raises, whatever its status code and detail.
\<close>

theorem get_connection_untyped_counterexample:
  "get_connection (AsyncRedisService_init :: (unit, string, store) AsyncRedisService)
     = Inl (Exception ''Connection pool not set. Call set_connection_pool() first.'') \<and>
   (\<forall>status detail.
      get_connection (AsyncRedisService_init :: (unit, string, store) AsyncRedisService)
        \<noteq> Inl (RedisNotInitializedException status detail))"
  by (simp add: get_connection_def AsyncRedisService_init_def)

text \<open>
  Claim C2, amended. While \<^verbatim>\<open>_instance\<close> is \<^verbatim>\<open>None\<close>, \<open>get_instance\<close> raises
  \<open>RedisNotInitializedException\<close> (status 404), and an \<open>initialize\<close> that raises changes
  nothing about that. While the asynchronous instance has no client, \<open>get_connection\<close>
  and every operation that starts with it raise the builtin \<^verbatim>\<open>Exception\<close> with the
  message "Connection pool not set. Call set_connection_pool() first.", and send nothing
  to the store.
\<close>

theorem not_initialized_errors:
  assumes "cls_instance cls = None" and "self_client self = None"
  shows "get_instance cls
           = Inl (RedisNotInitializedException 404
                    ''RedisService not initialized. Call `initialize()` first'') \<and>
         (\<forall>e cls'. initialize redis_Redis host port username password db cls = (Inl e, cls')
            \<longrightarrow> get_instance cls' = get_instance cls) \<and>
         get_connection self = Inl pool_not_set \<and>
         AsyncRedisService_get self key w = (Inl pool_not_set, w) \<and>
         AsyncRedisService_set self skey val expire w = (Inl pool_not_set, w) \<and>
         mget self ks w = (Inl pool_not_set, w) \<and>
         mset self mapping w = (Inl pool_not_set, w) \<and>
         get_by_pattern self pattern w = (Inl pool_not_set, w) \<and>
         delete self key w = (Inl pool_not_set, w) \<and>
         exists self key w = (Inl pool_not_set, w) \<and>
         keys self pattern w = (Inl pool_not_set, w) \<and>
         flushdb self w = (Inl pool_not_set, w) \<and>
         pipeline self w = (Inl pool_not_set, w)"
proof -
  have sync: "get_instance cls
      = Inl (RedisNotInitializedException 404
               ''RedisService not initialized. Call `initialize()` first'')"
    using assms(1) by (simp add: get_instance_def new_RedisNotInitializedException_def)
  have failed: "\<forall>e cls'. initialize redis_Redis host port username password db cls = (Inl e, cls')
      \<longrightarrow> get_instance cls' = get_instance cls"
    using assms(1)
    by (auto simp: initialize_def RedisService_init_def get_instance_def
        split: option.splits prod.splits sum.splits if_splits)
  have conn: "get_connection self = Inl pool_not_set"
    using assms(2) by (rule get_connection_None)
  show ?thesis
    using sync failed conn
    by (simp add: AsyncRedisService_get_def AsyncRedisService_set_def mget_def mset_def
        get_by_pattern_def delete_def exists_def keys_def flushdb_def pipeline_def raise_def)
qed

theorem not_initialized_errors_witness:
  "get_instance (RedisService_loaded :: store RedisService_class)
     = Inl (RedisNotInitializedException 404
              ''RedisService not initialized. Call `initialize()` first'') \<and>
   get_connection (AsyncRedisService_init :: (unit, string, store) AsyncRedisService)
     = Inl pool_not_set \<and>
   AsyncRedisService_get (AsyncRedisService_init :: (unit, string, store) AsyncRedisService)
     ''k'' empty_store = (Inl pool_not_set, empty_store) \<and>
   AsyncRedisService_set (AsyncRedisService_init :: (unit, string, store) AsyncRedisService)
     (Str ''k'') ''v'' None empty_store = (Inl pool_not_set, empty_store) \<and>
   get_by_pattern (AsyncRedisService_init :: (unit, string, store) AsyncRedisService)
     ''ns:*'' empty_store = (Inl pool_not_set, empty_store) \<and>
   exists (AsyncRedisService_init :: (unit, string, store) AsyncRedisService)
     ''k'' empty_store = (Inl pool_not_set, empty_store)"
proof -
  have a: "cls_instance (RedisService_loaded :: store RedisService_class) = None"
    by (simp add: RedisService_loaded_def)
  have b: "self_client (AsyncRedisService_init :: (unit, string, store) AsyncRedisService) = None"
    by (simp add: AsyncRedisService_init_def)
  show ?thesis
    using not_initialized_errors [OF a b, of store_redis "''localhost''" 6379 None None 0
        "''k''" empty_store "Str ''k''" "''v''" None "[]" "[]" "''ns:*''"]
    by simp
qed

section \<open>Closing\<close>

text \<open>
  Claim C3 as stated fails for the synchronous service. \<open>close\<close> on the initialised
  class closes the client and assigns to no attribute: the client and the instance are
  still there, \<open>get_instance\<close> returns the instance, and a \<open>get\<close> goes to the store.
\<close>

theorem close_keeps_client_counterexample:
  "(case RedisService_close RedisService_object store_class empty_store of
      (r, cls, w) \<Rightarrow>
        r = Inr () \<and> cls_client cls = Some store_Redis \<and>
        cls_instance cls = Some RedisService_object \<and>
        get_instance cls = Inr RedisService_object \<and>
        RedisService_get cls RedisService_object ''k'' w
          = (Inr None, \<lparr>st_data = [], st_sent = [CLOSE, GET ''k'']\<rparr>))"
  by (simp add: RedisService_close_def store_class_def store_Redis_def store_close_def
      get_instance_def RedisService_get_def store_get_def send_def empty_store_def)

lemma aclose_returns:
  assumes "aclose self w = (Inr u, self', w')"
  shows "self' = self\<lparr>self_client := None, self_pool := None\<rparr>"
proof -
  obtain r1 w1 where c1:
    "(case self_client self of Some c \<Rightarrow> r_aclose c w | None \<Rightarrow> (Inr (), w)) = (r1, w1)"
    by (metis surj_pair)
  obtain r2 w2 where c2:
    "(case self_pool self of Some p \<Rightarrow> pool_aclose p w1 | None \<Rightarrow> (Inr (), w1)) = (r2, w2)"
    by (metis surj_pair)
  from assms c1 c2 show ?thesis
    by (cases r1; cases r2) (simp_all add: aclose_def)
qed

text \<open>
  Claim C3, amended. When \<open>aclose\<close> returns, and so when the managed block of the
  asynchronous service is left, \<^verbatim>\<open>_client\<close> and \<^verbatim>\<open>_pool\<close> are \<^verbatim>\<open>None\<close>; from then on
  \<open>get_connection\<close> and the operations raise the builtin \<^verbatim>\<open>Exception\<close> with the
  message "Connection pool not set. Call set_connection_pool() first.", until a
  \<open>set_connection_pool\<close> returns, after which \<open>get_connection\<close> returns the new
  client. The \<open>close\<close> of the synchronous service leaves the class attributes as they
  are.
\<close>

theorem aclose_clears:
  assumes "aclose self w = (Inr (), self', w')"
  shows "self_client self' = None \<and> self_pool self' = None \<and>
         aexit (aenter self) w = (Inr (), self', w') \<and>
         get_connection self' = Inl pool_not_set \<and>
         AsyncRedisService_get self' key w1 = (Inl pool_not_set, w1) \<and>
         AsyncRedisService_set self' skey val expire w1 = (Inl pool_not_set, w1) \<and>
         (\<forall>self''. set_connection_pool redis host port db password max_connections kwargs self'
              = (Inr (), self'')
            \<longrightarrow> (\<exists>c. get_connection self'' = Inr c \<and> self_client self'' = Some c)) \<and>
         (\<forall>r cls' w2'. RedisService_close obj cls w2 = (r, cls', w2') \<longrightarrow> cls' = cls)"
proof -
  have cleared: "self_client self' = None \<and> self_pool self' = None"
    using aclose_returns [OF assms] by simp
  then have conn: "get_connection self' = Inl pool_not_set"
    by (simp add: get_connection_None)
  have again: "\<forall>self''. set_connection_pool redis host port db password max_connections kwargs self'
        = (Inr (), self'')
      \<longrightarrow> (\<exists>c. get_connection self'' = Inr c \<and> self_client self'' = Some c)"
    by (auto simp: set_connection_pool_def get_connection_def split: sum.splits)
  have sync: "\<forall>r cls' w2'. RedisService_close obj cls w2 = (r, cls', w2') \<longrightarrow> cls' = cls"
    by (auto simp: RedisService_close_def split: option.splits prod.splits)
  show ?thesis
    using assms cleared conn again sync
    by (simp add: aexit_def aenter_def AsyncRedisService_get_def AsyncRedisService_set_def raise_def)
qed

theorem aclose_clears_witness:
  "aclose (store_service :: (unit, string, store) AsyncRedisService) empty_store
     = (Inr (), AsyncRedisService_init, \<lparr>st_data = [], st_sent = [CLOSE]\<rparr>) \<and>
   aexit (aenter (store_service :: (unit, string, store) AsyncRedisService)) empty_store
     = (Inr (), AsyncRedisService_init, \<lparr>st_data = [], st_sent = [CLOSE]\<rparr>) \<and>
   get_connection (AsyncRedisService_init :: (unit, string, store) AsyncRedisService)
     = Inl pool_not_set \<and>
   AsyncRedisService_get (AsyncRedisService_init :: (unit, string, store) AsyncRedisService)
     ''bar'' \<lparr>st_data = [], st_sent = [CLOSE]\<rparr>
     = (Inl pool_not_set, \<lparr>st_data = [], st_sent = [CLOSE]\<rparr>)"
proof -
  have closed: "aclose (store_service :: (unit, string, store) AsyncRedisService) empty_store
      = (Inr (), AsyncRedisService_init, \<lparr>st_data = [], st_sent = [CLOSE]\<rparr>)"
    by (simp add: aclose_def store_service_def store_AsyncRedis_def store_ConnectionPool_def
        store_close_def send_def empty_store_def ret_def AsyncRedisService_init_def)
  show ?thesis
    using closed
      aclose_clears [OF closed, of "''bar''" "\<lparr>st_data = [], st_sent = [CLOSE]\<rparr>"
        "Str ''bar''" "''baz''" None store_asyncio "''localhost''" 6379 0 None 100 "[]"
        RedisService_object store_class empty_store]
    by blast
qed

section \<open>The caching decorator\<close>

lemma set_Some:
  "self_client self = Some c \<Longrightarrow> AsyncRedisService_set self key val expire = r_set c key val expire"
  by (simp add: AsyncRedisService_set_def get_connection_def)

text \<open>
  Claim C4. With a string key, the decorator gives a wrapper that on a call runs the
  decorated operation, then sends one \<^verbatim>\<open>set\<close> of the operation's result under the key
  with the expiry, in the state the operation left, and returns that result. The
  hypotheses are that a client is configured and that the operation and the \<^verbatim>\<open>set\<close>
  return. The wrapper reads nothing back: whatever \<^verbatim>\<open>get\<close> and \<^verbatim>\<open>mget\<close> of the client
  are replaced by, the call does the same.
\<close>

theorem memoize_write_through:
  fixes self :: "('a, 'r, 'w) AsyncRedisService" and c :: "('a, 'r, 'w) AsyncRedis"
  assumes "self_client self = Some c"
    and "func args w = (Inr result, w1)"
    and "r_set c (Str key) result expire w1 = (Inr ok, w2)"
  shows "(case set_decorator self (Str key) expire of
            Decorator d \<Rightarrow> d func args w = (Inr result, w2)
          | Wrapper g \<Rightarrow> False) \<and>
         wrapper self (Str key) expire func args w = (Inr result, w2) \<and>
         (\<forall>g h. wrapper (self\<lparr>self_client := Some (c\<lparr>r_get := g, r_mget := h\<rparr>)\<rparr>)
                   (Str key) expire func args w = (Inr result, w2))"
proof -
  have run: "wrapper self (Str key) expire func args w = (Inr result, w2)"
    using assms by (simp add: wrapper_def await_def set_Some ret_def)
  have blind: "\<forall>g h. wrapper (self\<lparr>self_client := Some (c\<lparr>r_get := g, r_mget := h\<rparr>)\<rparr>)
      (Str key) expire func args w = (Inr result, w2)"
    using assms(2,3) by (simp add: wrapper_def await_def set_Some ret_def)
  show ?thesis
    using run blind by (simp add: set_decorator_def decorator_def)
qed

text \<open>
  Two calls in a row over the store in memory: the operation returns \<open>r1\<close>, then
  \<open>r2\<close>, and each time the key holds the latest result.
\<close>

theorem memoize_write_through_witness:
  "wrapper store_service (Str ''fixed-key'') (Some 60) operation () empty_store
     = (Inr ''r1'', \<lparr>st_data = [(''fixed-key'', ''r1'')],
                      st_sent = [SET ''fixed-key'' ''r1'' (Some 60)]\<rparr>) \<and>
   wrapper store_service (Str ''fixed-key'') (Some 60) operation ()
     \<lparr>st_data = [(''fixed-key'', ''r1'')], st_sent = [SET ''fixed-key'' ''r1'' (Some 60)]\<rparr>
     = (Inr ''r2'', \<lparr>st_data = [(''fixed-key'', ''r2'')],
                      st_sent = [SET ''fixed-key'' ''r1'' (Some 60),
                                 SET ''fixed-key'' ''r2'' (Some 60)]\<rparr>)"
proof -
  let ?s1 = "\<lparr>st_data = [(''fixed-key'', ''r1'')], st_sent = [SET ''fixed-key'' ''r1'' (Some 60)]\<rparr>"
  let ?s2 = "\<lparr>st_data = [(''fixed-key'', ''r2'')],
              st_sent = [SET ''fixed-key'' ''r1'' (Some 60), SET ''fixed-key'' ''r2'' (Some 60)]\<rparr>"
  have c: "self_client (store_service :: (unit, string, store) AsyncRedisService)
      = Some store_AsyncRedis"
    by (simp add: store_service_def)
  have f1: "operation () empty_store = (Inr ''r1'', empty_store)"
    by (simp add: operation_def empty_store_def)
  have s1: "r_set (store_AsyncRedis :: (unit, string, store) AsyncRedis) (Str ''fixed-key'') ''r1''
      (Some 60) empty_store = (Inr True, ?s1)"
    by (simp add: store_AsyncRedis_def store_set_def send_def empty_store_def)
  have f2: "operation () ?s1 = (Inr ''r2'', ?s1)"
    by (simp add: operation_def)
  have s2: "r_set (store_AsyncRedis :: (unit, string, store) AsyncRedis) (Str ''fixed-key'') ''r2''
      (Some 60) ?s1 = (Inr True, ?s2)"
    by (simp add: store_AsyncRedis_def store_set_def send_def)
  show ?thesis
    using memoize_write_through [where func = operation, OF c f1 s1]
      memoize_write_through [where func = operation, OF c f2 s2]
    by blast
qed

text \<open>
  Claim C8. Given a callable as its first argument, \<open>set_decorator\<close> returns a wrapper
  of that callable, not a decorator; given a string it returns the decorator.
\<close>

theorem bare_decorator_wraps:
  "callable (Callable f) \<and>
   set_decorator self (Callable f) expire = Wrapper (wrapper self (Callable f) expire f) \<and>
   (\<forall>d. set_decorator self (Callable f) expire \<noteq> Decorator d) \<and>
   set_decorator self (Str s) expire = Decorator (wrapper self (Str s) expire)"
  by (simp add: set_decorator_def decorator_def fun_eq_iff)

theorem bare_decorator_wraps_witness:
  "set_decorator store_service (Callable operation) (Some 60)
     = Wrapper (wrapper store_service (Callable operation) (Some 60) operation)"
  using bare_decorator_wraps [of operation store_service "Some 60"] by simp




section \<open>Pattern queries and existence\<close>

text \<open>
  What a lookup in a dict built from pairs finds: nothing for a key that is in no pair,
  and for a key the value of its last pair.
\<close>

lemma dict_snoc: "dict (kvs @ [(k, v)]) = (dict kvs)(k \<mapsto> v)"
  by (simp add: dict_def fun_eq_iff)

lemma dict_None: "k \<notin> fst ` set kvs \<Longrightarrow> dict kvs k = None"
  by (simp add: dict_def map_of_eq_None_iff)

lemma dict_last:
  "i < length kvs \<Longrightarrow> \<forall>j. i < j \<and> j < length kvs \<longrightarrow> fst (kvs ! j) \<noteq> fst (kvs ! i)
     \<Longrightarrow> dict kvs (fst (kvs ! i)) = Some (snd (kvs ! i))"
proof (induction kvs rule: rev_induct)
  case Nil
  then show ?case by simp
next
  case (snoc x xs)
  obtain k v where x: "x = (k, v)" by (cases x)
  show ?case
  proof (cases "i < length xs")
    case True
    have "fst ((xs @ [x]) ! length xs) \<noteq> fst ((xs @ [x]) ! i)"
      using snoc.prems(2) [rule_format, of "length xs"] True by simp
    then have ne: "k \<noteq> fst (xs ! i)"
      using True x by (simp add: nth_append)
    have "\<forall>j. i < j \<and> j < length xs \<longrightarrow> fst (xs ! j) \<noteq> fst (xs ! i)"
    proof (intro allI impI)
      fix j assume j: "i < j \<and> j < length xs"
      then have "fst ((xs @ [x]) ! j) \<noteq> fst ((xs @ [x]) ! i)"
        using snoc.prems(2) [rule_format, of j] by simp
      with j True show "fst (xs ! j) \<noteq> fst (xs ! i)"
        by (simp add: nth_append)
    qed
    with snoc.IH True have "dict xs (fst (xs ! i)) = Some (snd (xs ! i))"
      by simp
    with ne True x show ?thesis
      by (simp add: dict_snoc nth_append)
  next
    case False
    with snoc.prems(1) have "i = length xs" by simp
    with x show ?thesis
      by (simp add: dict_snoc)
  qed
qed

text \<open>
  Claim C5. With a client configured and \<^verbatim>\<open>keys\<close> returning, \<open>get_by_pattern\<close> returns
  the empty mapping in the state \<^verbatim>\<open>keys\<close> left when no key matches, and does so whatever
  \<^verbatim>\<open>mget\<close> of the client is: it is not called. When keys match and \<^verbatim>\<open>mget\<close> of those
  keys returns, the result is the mapping of the keys zipped with the values: a key that
  is not among the zipped keys has no entry, and the key at a position has the value at
  that position (for a key that occurs again later, the later position counts).
\<close>

theorem get_by_pattern_zip:
  fixes self :: "('a, 'r, 'w) AsyncRedisService" and c :: "('a, 'r, 'w) AsyncRedis"
  assumes "self_client self = Some c"
    and "r_keys c pattern w = (Inr ks, w1)"
  shows "(ks = [] \<longrightarrow>
            get_by_pattern self pattern w = (Inr Map.empty, w1) \<and>
            (\<forall>f. get_by_pattern (self\<lparr>self_client := Some (c\<lparr>r_mget := f\<rparr>)\<rparr>) pattern w
                   = (Inr Map.empty, w1))) \<and>
         (ks \<noteq> [] \<longrightarrow>
            (\<forall>values w2. r_mget c ks w1 = (Inr values, w2) \<longrightarrow>
               (\<exists>m. get_by_pattern self pattern w = (Inr m, w2) \<and>
                    m = dict (zip ks values) \<and>
                    (\<forall>k. k \<notin> set (take (length values) ks) \<longrightarrow> m k = None) \<and>
                    (\<forall>i. i < length ks \<and> i < length values \<and>
                         (\<forall>j. i < j \<and> j < length ks \<and> j < length values \<longrightarrow> ks ! j \<noteq> ks ! i)
                       \<longrightarrow> m (ks ! i) = Some (values ! i)))))"
proof -
  have absent: "\<forall>k. k \<notin> set (take (length vs) ks) \<longrightarrow> dict (zip ks vs) k = None"
    for vs :: "string option list"
  proof (intro allI impI)
    fix k assume "k \<notin> set (take (length vs) ks)"
    moreover have "fst ` set (zip ks vs) = set (map fst (zip ks vs))"
      by simp
    moreover have "map fst (zip ks vs) = take (min (length ks) (length vs)) ks"
      by (rule map_fst_zip_take)
    moreover have "take (min (length ks) (length vs)) ks = take (length vs) ks"
      by (simp add: min_def)
    ultimately have "k \<notin> fst ` set (zip ks vs)"
      by simp
    then show "dict (zip ks vs) k = None"
      by (rule dict_None)
  qed
  have present: "\<forall>i. i < length ks \<and> i < length vs \<and>
        (\<forall>j. i < j \<and> j < length ks \<and> j < length vs \<longrightarrow> ks ! j \<noteq> ks ! i)
      \<longrightarrow> dict (zip ks vs) (ks ! i) = Some (vs ! i)"
    for vs :: "string option list"
  proof (intro allI impI)
    fix i
    assume h: "i < length ks \<and> i < length vs \<and>
      (\<forall>j. i < j \<and> j < length ks \<and> j < length vs \<longrightarrow> ks ! j \<noteq> ks ! i)"
    then have i: "i < length (zip ks vs)" by simp
    have "\<forall>j. i < j \<and> j < length (zip ks vs)
        \<longrightarrow> fst (zip ks vs ! j) \<noteq> fst (zip ks vs ! i)"
      using h by simp
    from dict_last [OF i this] h show "dict (zip ks vs) (ks ! i) = Some (vs ! i)"
      by simp
  qed
  have run: "ks \<noteq> [] \<Longrightarrow> r_mget c ks w1 = (Inr vs, w2)
      \<Longrightarrow> get_by_pattern self pattern w = (Inr (dict (zip ks vs)), w2)" for vs w2
    using assms by (simp add: get_by_pattern_def get_connection_def await_def ret_def)
  have none: "ks = [] \<longrightarrow>
      get_by_pattern self pattern w = (Inr Map.empty, w1) \<and>
      (\<forall>f. get_by_pattern (self\<lparr>self_client := Some (c\<lparr>r_mget := f\<rparr>)\<rparr>) pattern w
             = (Inr Map.empty, w1))"
    using assms by (simp add: get_by_pattern_def get_connection_def await_def ret_def)
  show ?thesis
    using none run absent present by blast
qed

theorem get_by_pattern_zip_witness:
  "get_by_pattern (store_service :: (unit, string, store) AsyncRedisService) ''ns:*'' empty_store
     = (Inr Map.empty, \<lparr>st_data = [], st_sent = [KEYS ''ns:*'']\<rparr>) \<and>
   (\<exists>m. get_by_pattern (store_service :: (unit, string, store) AsyncRedisService) ''ns:*''
          \<lparr>st_data = [(''ns:1'', ''x''), (''other'', ''z''), (''ns:2'', ''y'')], st_sent = []\<rparr>
          = (Inr m,
             \<lparr>st_data = [(''ns:1'', ''x''), (''other'', ''z''), (''ns:2'', ''y'')],
              st_sent = [KEYS ''ns:*'', MGET [''ns:1'', ''ns:2'']]\<rparr>) \<and>
        m ''ns:1'' = Some (Some ''x'') \<and> m ''ns:2'' = Some (Some ''y'') \<and> m ''other'' = None)"
proof -
  let ?d = "[(''ns:1'', ''x''), (''other'', ''z''), (''ns:2'', ''y'')]"
  let ?ks = "[''ns:1'', ''ns:2'']"
  let ?vs = "[Some ''x'', Some ''y'']"
  let ?s2 = "\<lparr>st_data = ?d, st_sent = [KEYS ''ns:*'', MGET ?ks]\<rparr>"
  have c: "self_client (store_service :: (unit, string, store) AsyncRedisService)
      = Some store_AsyncRedis"
    by (simp add: store_service_def)
  have k0: "r_keys (store_AsyncRedis :: (unit, string, store) AsyncRedis) ''ns:*'' empty_store
      = (Inr [], \<lparr>st_data = [], st_sent = [KEYS ''ns:*'']\<rparr>)"
    by (simp add: store_AsyncRedis_def store_keys_def send_def empty_store_def)
  have k1: "r_keys (store_AsyncRedis :: (unit, string, store) AsyncRedis) ''ns:*''
      \<lparr>st_data = ?d, st_sent = []\<rparr>
      = (Inr ?ks, \<lparr>st_data = ?d, st_sent = [KEYS ''ns:*'']\<rparr>)"
    by (simp add: store_AsyncRedis_def store_keys_def send_def)
  have m1: "r_mget (store_AsyncRedis :: (unit, string, store) AsyncRedis) ?ks
      \<lparr>st_data = ?d, st_sent = [KEYS ''ns:*'']\<rparr> = (Inr ?vs, ?s2)"
    by (simp add: store_AsyncRedis_def store_mget_def send_def)
  have empty: "get_by_pattern (store_service :: (unit, string, store) AsyncRedisService)
      ''ns:*'' empty_store = (Inr Map.empty, \<lparr>st_data = [], st_sent = [KEYS ''ns:*'']\<rparr>)"
    using get_by_pattern_zip [OF c k0] by simp
  from get_by_pattern_zip [OF c k1] m1
  obtain m where run: "get_by_pattern (store_service :: (unit, string, store) AsyncRedisService)
        ''ns:*'' \<lparr>st_data = ?d, st_sent = []\<rparr> = (Inr m, ?s2)"
    and absent: "\<forall>k. k \<notin> set (take (length ?vs) ?ks) \<longrightarrow> m k = None"
    and present: "\<forall>i. i < length ?ks \<and> i < length ?vs \<and>
        (\<forall>j. i < j \<and> j < length ?ks \<and> j < length ?vs \<longrightarrow> ?ks ! j \<noteq> ?ks ! i)
      \<longrightarrow> m (?ks ! i) = Some (?vs ! i)"
    by blast
  have "\<forall>j. 0 < j \<and> j < length ?ks \<and> j < length ?vs \<longrightarrow> ?ks ! j \<noteq> ?ks ! 0"
    by (auto simp: less_Suc_eq)
  with present have a: "m ''ns:1'' = Some (Some ''x'')"
    by (metis length_Cons nth_Cons_0 zero_less_Suc)
  have "m (?ks ! 1) = Some (?vs ! 1)"
    using present by (intro present [rule_format]) simp
  then have b: "m ''ns:2'' = Some (Some ''y'')"
    by simp
  have o: "m ''other'' = None"
    using absent by simp
  show ?thesis
    using empty run a b o by blast
qed

text \<open>
  Claim C6. \<open>exists\<close> returns whether the count the client reports is 1; a count of 0,
  of 2 or of anything else gives \<^verbatim>\<open>False\<close>.
\<close>

theorem exists_iff_count_one:
  fixes self :: "('a, 'r, 'w) AsyncRedisService" and c :: "('a, 'r, 'w) AsyncRedis"
  assumes "self_client self = Some c"
    and "r_exists c key w = (Inr n, w1)"
  shows "exists self key w = (Inr (n = 1), w1)"
  using assms by (simp add: exists_def get_connection_def await_def ret_def)

theorem exists_iff_count_one_witness:
  "exists (store_service :: (unit, string, store) AsyncRedisService) ''k''
     \<lparr>st_data = [(''k'', ''v'')], st_sent = []\<rparr>
     = (Inr True, \<lparr>st_data = [(''k'', ''v'')], st_sent = [EXISTS ''k'']\<rparr>) \<and>
   exists (store_service :: (unit, string, store) AsyncRedisService) ''k'' empty_store
     = (Inr False, \<lparr>st_data = [], st_sent = [EXISTS ''k'']\<rparr>) \<and>
   exists ((store_service :: (unit, string, store) AsyncRedisService)
             \<lparr>self_client := Some (store_AsyncRedis\<lparr>r_exists := (\<lambda>k. ret 2)\<rparr>)\<rparr>)
     ''k'' empty_store
     = (Inr False, empty_store)"
proof -
  let ?two = "(store_AsyncRedis :: (unit, string, store) AsyncRedis)\<lparr>r_exists := (\<lambda>k. ret 2)\<rparr>"
  have c: "self_client (store_service :: (unit, string, store) AsyncRedisService)
      = Some store_AsyncRedis"
    by (simp add: store_service_def)
  have c2: "self_client ((store_service :: (unit, string, store) AsyncRedisService)
      \<lparr>self_client := Some ?two\<rparr>) = Some ?two"
    by simp
  have one: "r_exists (store_AsyncRedis :: (unit, string, store) AsyncRedis) ''k''
      \<lparr>st_data = [(''k'', ''v'')], st_sent = []\<rparr>
      = (Inr 1, \<lparr>st_data = [(''k'', ''v'')], st_sent = [EXISTS ''k'']\<rparr>)"
    by (simp add: store_AsyncRedis_def store_exists_def send_def)
  have none: "r_exists (store_AsyncRedis :: (unit, string, store) AsyncRedis) ''k'' empty_store
      = (Inr 0, \<lparr>st_data = [], st_sent = [EXISTS ''k'']\<rparr>)"
    by (simp add: store_AsyncRedis_def store_exists_def send_def empty_store_def)
  have two: "r_exists ?two ''k'' empty_store = (Inr 2, empty_store)"
    by (simp add: ret_def)
  show ?thesis
    using exists_iff_count_one [OF c one] exists_iff_count_one [OF c none]
      exists_iff_count_one [OF c2 two]
    by simp
qed

section \<open>Round trip\<close>

lemma store_set_get: "store_set k v ex s = (r, s1) \<Longrightarrow> fst (store_get k s1) = Inr (Some v)"
  by (auto simp: store_set_def store_get_def send_def update_conv')

text \<open>
  Claim C7. The services pass key, value and expiry to the client as they are and return
  what the client's \<^verbatim>\<open>get\<close> returns. So for a client whose \<^verbatim>\<open>get\<close> after a \<^verbatim>\<open>set\<close> of
  a key returns the value set, a \<open>get\<close> of the service right after its \<open>set\<close> has
  returned yields the value, in both services; and where the client reports a key absent,
  the service returns \<^verbatim>\<open>None\<close> and raises nothing.
\<close>

theorem set_get_round_trip:
  fixes c :: "'w Redis" and ac :: "('a, string, 'w) AsyncRedis"
  assumes "cls_client cls = Some c" and "self_client self = Some ac"
    and sync_store: "\<forall>w ok w1. redis_set c k v ex w = (Inr ok, w1)
        \<longrightarrow> fst (redis_get c k w1) = Inr (Some v)"
    and async_store: "\<forall>w ok w1. r_set ac (Str k) v ex w = (Inr ok, w1)
        \<longrightarrow> fst (r_get ac k w1) = Inr (Some v)"
  shows "(RedisService_set cls obj k v ex w = (Inr (), w1)
            \<longrightarrow> fst (RedisService_get cls obj k w1) = Inr (Some v)) \<and>
         (AsyncRedisService_set self (Str k) v ex w = (Inr ok, w1)
            \<longrightarrow> fst (AsyncRedisService_get self k w1) = Inr (Some v)) \<and>
         (redis_get c k' w = (Inr None, w2)
            \<longrightarrow> RedisService_get cls obj k' w = (Inr None, w2)) \<and>
         (r_get ac k' w = (Inr None, w2)
            \<longrightarrow> AsyncRedisService_get self k' w = (Inr None, w2))"
proof -
  have sync: "RedisService_set cls obj k v ex w = (Inr (), w1)
      \<longrightarrow> fst (RedisService_get cls obj k w1) = Inr (Some v)"
  proof
    assume ok: "RedisService_set cls obj k v ex w = (Inr (), w1)"
    obtain r wa where s: "redis_set c k v ex w = (r, wa)"
      by (metis surj_pair)
    with ok assms(1) obtain b where "redis_set c k v ex w = (Inr b, w1)"
      by (cases r) (simp_all add: RedisService_set_def await_def ret_def)
    with sync_store have "fst (redis_get c k w1) = Inr (Some v)"
      by blast
    with assms(1) show "fst (RedisService_get cls obj k w1) = Inr (Some v)"
      by (simp add: RedisService_get_def)
  qed
  have async: "AsyncRedisService_set self (Str k) v ex w = (Inr ok, w1)
      \<longrightarrow> fst (AsyncRedisService_get self k w1) = Inr (Some v)"
    using assms(2) async_store
    by (simp add: AsyncRedisService_set_def AsyncRedisService_get_def get_connection_def)
  show ?thesis
    using sync async assms(1,2)
    by (simp add: RedisService_get_def AsyncRedisService_get_def get_connection_def)
qed

theorem set_get_round_trip_witness:
  "RedisService_set store_class RedisService_object ''mykey'' ''Hello'' (Some 60) empty_store
     = (Inr (), \<lparr>st_data = [(''mykey'', ''Hello'')],
                  st_sent = [SET ''mykey'' ''Hello'' (Some 60)]\<rparr>) \<and>
   fst (RedisService_get store_class RedisService_object ''mykey''
          \<lparr>st_data = [(''mykey'', ''Hello'')], st_sent = [SET ''mykey'' ''Hello'' (Some 60)]\<rparr>)
     = Inr (Some ''Hello'') \<and>
   AsyncRedisService_set (store_service :: (unit, string, store) AsyncRedisService)
     (Str ''mykey'') ''Hello'' (Some 60) empty_store
     = (Inr True, \<lparr>st_data = [(''mykey'', ''Hello'')],
                    st_sent = [SET ''mykey'' ''Hello'' (Some 60)]\<rparr>) \<and>
   fst (AsyncRedisService_get (store_service :: (unit, string, store) AsyncRedisService) ''mykey''
          \<lparr>st_data = [(''mykey'', ''Hello'')], st_sent = [SET ''mykey'' ''Hello'' (Some 60)]\<rparr>)
     = Inr (Some ''Hello'') \<and>
   RedisService_get store_class RedisService_object ''other'' empty_store
     = (Inr None, \<lparr>st_data = [], st_sent = [GET ''other'']\<rparr>) \<and>
   AsyncRedisService_get (store_service :: (unit, string, store) AsyncRedisService) ''other''
     empty_store
     = (Inr None, \<lparr>st_data = [], st_sent = [GET ''other'']\<rparr>)"
proof -
  let ?s1 = "\<lparr>st_data = [(''mykey'', ''Hello'')], st_sent = [SET ''mykey'' ''Hello'' (Some 60)]\<rparr>"
  have c: "cls_client store_class = Some store_Redis"
    by (simp add: store_class_def)
  have ac: "self_client (store_service :: (unit, string, store) AsyncRedisService)
      = Some store_AsyncRedis"
    by (simp add: store_service_def)
  have l1: "\<forall>w ok w1. redis_set store_Redis ''mykey'' ''Hello'' (Some 60) w = (Inr ok, w1)
      \<longrightarrow> fst (redis_get store_Redis ''mykey'' w1) = Inr (Some ''Hello'')"
    by (auto simp: store_Redis_def dest: store_set_get)
  have l2: "\<forall>w ok w1.
      r_set (store_AsyncRedis :: (unit, string, store) AsyncRedis) (Str ''mykey'') ''Hello''
        (Some 60) w = (Inr ok, w1)
      \<longrightarrow> fst (r_get (store_AsyncRedis :: (unit, string, store) AsyncRedis) ''mykey'' w1)
            = Inr (Some ''Hello'')"
    by (auto simp: store_AsyncRedis_def dest: store_set_get)
  have s: "RedisService_set store_class RedisService_object ''mykey'' ''Hello'' (Some 60)
      empty_store = (Inr (), ?s1)"
    by (simp add: RedisService_set_def store_class_def store_Redis_def store_set_def send_def
        empty_store_def await_def ret_def)
  have a: "AsyncRedisService_set (store_service :: (unit, string, store) AsyncRedisService)
      (Str ''mykey'') ''Hello'' (Some 60) empty_store = (Inr True, ?s1)"
    by (simp add: AsyncRedisService_set_def get_connection_def store_service_def
        store_AsyncRedis_def store_set_def send_def empty_store_def)
  have g: "redis_get store_Redis ''other'' empty_store
      = (Inr None, \<lparr>st_data = [], st_sent = [GET ''other'']\<rparr>)"
    by (simp add: store_Redis_def store_get_def send_def empty_store_def)
  have ag: "r_get (store_AsyncRedis :: (unit, string, store) AsyncRedis) ''other'' empty_store
      = (Inr None, \<lparr>st_data = [], st_sent = [GET ''other'']\<rparr>)"
    by (simp add: store_AsyncRedis_def store_get_def send_def empty_store_def)
  show ?thesis
    using s a g ag
      set_get_round_trip [OF c ac l1 l2, of RedisService_object empty_store ?s1 True
        "''other''" "\<lparr>st_data = [], st_sent = [GET ''other'']\<rparr>"]
    by simp
qed

end
